theory Spec2Isabelle
  imports Main
begin

section \<open>Python values and exceptions\<close>

text \<open>
  The exceptions that the modelled part of \<^verbatim>\<open>chainlink.py\<close> can raise and does not catch.
  The model follows Python 3: \<^verbatim>\<open>int\<close> is unbounded and \<^verbatim>\<open>/\<close> on an int and a float is
  float division.
\<close>

datatype pyerr = OverflowError | ValueError | UnboundLocalError | OSError | GetoptError

section \<open>Binary64 floating point\<close>

text \<open>
  \<^verbatim>\<open>convert_ms_to_frames\<close> computes in Python floats, which are IEEE 754 binary64 numbers
  with round-to-nearest, ties-to-even. A finite double is \<open>Finite m e\<close>, standing for
  \<open>m * 2 ^ e\<close>; mantissas produced by rounding have at most 53 bits and exponents are at
  least \<open>-1074\<close> (the subnormal range). \<open>Infinity neg\<close> is the overflow result.
\<close>

datatype double = Finite int int | Infinity bool

function bit_length :: "int \<Rightarrow> nat" where
  "bit_length n = (if n \<le> 0 then 0 else Suc (bit_length (n div 2)))"
  by pat_completeness auto
termination
  by (relation "measure nat") auto

declare bit_length.simps [simp del]

text \<open>The integer nearest to \<open>n / d\<close> (for \<open>0 \<le> n\<close>, \<open>0 < d\<close>), ties going to the even one.\<close>

definition round_half_even :: "int \<Rightarrow> int \<Rightarrow> int" where
  "round_half_even n d =
     (let q = n div d; r = n mod d
      in if d < 2 * r \<or> (2 * r = d \<and> odd q) then q + 1 else q)"

text \<open>
  The double nearest to \<open>(if neg then - n / d else n / d)\<close>, for \<open>0 \<le> n\<close> and \<open>0 < d\<close>:
  the exponent \<open>e\<close> is chosen so that \<open>n / (d * 2 ^ e)\<close> lies in \<open>[2 ^ 52, 2 ^ 53)\<close>, but
  never below \<open>-1074\<close>; the quotient is then rounded to an integer mantissa.
\<close>

definition round_ratio :: "bool \<Rightarrow> int \<Rightarrow> int \<Rightarrow> double" where
  "round_ratio neg n d =
     (if n = 0 then Finite 0 0 else
      let e0 = int (bit_length n) - int (bit_length d) - 53;
          e1 = (if n * 2 ^ nat (- e0) < d * 2 ^ nat e0 * 2 ^ 53 then
                  (if n * 2 ^ nat (- e0) < d * 2 ^ nat e0 * 2 ^ 52 then e0 - 1 else e0)
                else e0 + 1);
          e = max e1 (- 1074);
          m = round_half_even (n * 2 ^ nat (- e)) (d * 2 ^ nat e)
      in if 2 ^ 1024 \<le> m * 2 ^ nat e then Infinity neg
         else Finite (if neg then - m else m) e)"

text \<open>\<^verbatim>\<open>float(i)\<close> for a Python int: \<^verbatim>\<open>OverflowError\<close> when the int is too large.\<close>

definition float_of_int :: "int \<Rightarrow> pyerr + double" where
  "float_of_int i =
     (case round_ratio (i < 0) \<bar>i\<bar> 1 of
        Infinity _ \<Rightarrow> Inl OverflowError
      | Finite m e \<Rightarrow> Inr (Finite m e))"

text \<open>Division by a finite non-zero double (the source only divides by \<^verbatim>\<open>1000.0\<close>).\<close>

fun float_div :: "double \<Rightarrow> double \<Rightarrow> double" where
  "float_div (Finite m e) (Finite m' e') =
     round_ratio ((m < 0) \<noteq> (m' < 0))
       (\<bar>m\<bar> * 2 ^ nat (e - e')) (\<bar>m'\<bar> * 2 ^ nat (e' - e))"
| "float_div (Infinity s) (Finite m' e') = Infinity (s \<noteq> (m' < 0))"
| "float_div x (Infinity s) = Finite 0 0"

fun float_mul :: "double \<Rightarrow> double \<Rightarrow> double" where
  "float_mul (Finite m e) (Finite m' e') =
     round_ratio ((m < 0) \<noteq> (m' < 0))
       (\<bar>m * m'\<bar> * 2 ^ nat (e + e')) (2 ^ nat (- (e + e')))"
| "float_mul (Infinity s) (Finite m' e') = Infinity (s \<noteq> (m' < 0))"
| "float_mul (Finite m e) (Infinity s) = Infinity (s \<noteq> (m < 0))"
| "float_mul (Infinity s) (Infinity s') = Infinity (s \<noteq> s')"

text \<open>\<^verbatim>\<open>int(x)\<close> for a float: truncation towards zero; \<^verbatim>\<open>OverflowError\<close> on an infinity.\<close>

fun int_of_float :: "double \<Rightarrow> pyerr + int" where
  "int_of_float (Finite m e) =
     Inr (if 0 \<le> e then m * 2 ^ nat e
          else if 0 \<le> m then m div 2 ^ nat (- e) else - ((- m) div 2 ^ nat (- e)))"
| "int_of_float (Infinity s) = Inl OverflowError"

section \<open>Frame conversion\<close>

text \<open>
  \<^verbatim>\<open>return int(framerate * (chunk_size_ms / 1000.0))\<close>: the int \<^verbatim>\<open>chunk_size_ms\<close> is
  converted to a float and divided by \<^verbatim>\<open>1000.0\<close>, the int \<^verbatim>\<open>framerate\<close> is converted to a
  float and multiplied with the quotient, and the product is truncated.
\<close>

definition convert_ms_to_frames :: "int \<Rightarrow> int \<Rightarrow> pyerr + int" where
  "convert_ms_to_frames chunk_size_ms framerate =
     (case float_of_int chunk_size_ms of
        Inl err \<Rightarrow> Inl err
      | Inr c \<Rightarrow>
          (case float_of_int framerate of
             Inl err \<Rightarrow> Inl err
           | Inr f \<Rightarrow> int_of_float (float_mul f (float_div c (Finite 1000 0)))))"

section \<open>Standard output and control outcomes\<close>

text \<open>
  Values that the options handled here can take: \<^verbatim>\<open>cores\<close> is the int \<^verbatim>\<open>2\<close> or the string
  that \<^verbatim>\<open>getopt\<close> delivered, and \<^verbatim>\<open>check_options\<close> inspects the type of \<^verbatim>\<open>chunk_size\<close>.
\<close>

datatype pyval = PyInt int | PyStr string

text \<open>
  What is written to standard output: \<^verbatim>\<open>print(s)\<close> writes \<open>Line s\<close>, and
  \<^verbatim>\<open>traceback.print_exc(file=sys.stdout)\<close> writes the traceback of the caught exception.
\<close>

datatype out = Line string | Traceback pyerr

text \<open>
  How a function ends: it returns a value, \<^verbatim>\<open>sys.exit(n)\<close> ends the run with status \<open>n\<close>,
  or an exception propagates out of it.
\<close>

datatype 'a outcome = Return 'a | Exit int | Raise pyerr

text \<open>
  The status of the process when the outcome reaches the top level: an uncaught exception
  ends the interpreter with status 1, a normal return with status 0.
\<close>

fun exit_status :: "'a outcome \<Rightarrow> int" where
  "exit_status (Return v) = 0"
| "exit_status (Exit n) = n"
| "exit_status (Raise e) = 1"

section \<open>The file system\<close>

text \<open>
  A path names a regular file, a directory, or nothing. For a file the model keeps what
  \<^verbatim>\<open>sndhdr.what\<close> finds in it: \<open>None\<close> when the header is not recognised, otherwise the
  first component \<^verbatim>\<open>hdr[0]\<close> of the header, the file type. For a directory it keeps the
  listing. \<open>creatable\<close> tells for which paths \<^verbatim>\<open>os.makedirs\<close> succeeds.
\<close>

datatype node = File "string option" | Dir "string list"

record world =
  nodes :: "string \<Rightarrow> node option"
  creatable :: "string \<Rightarrow> bool"

definition isdir :: "world \<Rightarrow> string \<Rightarrow> bool" where
  "isdir w p = (case nodes w p of Some (Dir names) \<Rightarrow> True | _ \<Rightarrow> False)"

text \<open>\<^verbatim>\<open>os.listdir\<close> raises \<^verbatim>\<open>OSError\<close> on a path that is not a directory.\<close>

definition listdir :: "world \<Rightarrow> string \<Rightarrow> pyerr + string list" where
  "listdir w p = (case nodes w p of Some (Dir names) \<Rightarrow> Inr names | _ \<Rightarrow> Inl OSError)"

text \<open>
  \<^verbatim>\<open>sndhdr.what\<close> opens the file for reading, which raises \<^verbatim>\<open>OSError\<close> on a directory
  and on a path that does not exist. The result is \<^verbatim>\<open>hdr[0]\<close>, or \<open>None\<close> for \<^verbatim>\<open>hdr is None\<close>.
\<close>

definition what :: "world \<Rightarrow> string \<Rightarrow> pyerr + string option" where
  "what w p = (case nodes w p of Some (File hdr) \<Rightarrow> Inr hdr | _ \<Rightarrow> Inl OSError)"

text \<open>
  \<^verbatim>\<open>os.path.split\<close> (POSIX): the tail is what follows the last slash, the head what
  precedes it, without its trailing slashes unless it consists of slashes only.
\<close>

definition path_split :: "string \<Rightarrow> string \<times> string" where
  "path_split p =
     (let tail = rev (takeWhile (\<lambda>c. c \<noteq> CHR ''/'') (rev p));
          head = take (length p - length tail) p
      in (if list_all (\<lambda>c. c = CHR ''/'') head then head
          else rev (dropWhile (\<lambda>c. c = CHR ''/'') (rev head)),
          tail))"

text \<open>
  The directory that holds a path and the name of the path in it, as \<^verbatim>\<open>os.makedirs\<close>
  computes them: a path that ends in a slash is split once more.
\<close>

definition parent_and_name :: "string \<Rightarrow> string \<times> string" where
  "parent_and_name p =
     (if snd (path_split p) = [] then path_split (fst (path_split p)) else path_split p)"

text \<open>
  \<^verbatim>\<open>os.mkdir\<close>, where it succeeds: the path becomes an empty directory, and its name is
  entered in the listing of its parent when the parent is a directory of the model.
\<close>

definition mkdir :: "world \<Rightarrow> string \<Rightarrow> world" where
  "mkdir w p =
     (let head = fst (parent_and_name p); tail = snd (parent_and_name p);
          ns = (case nodes w head of
                  Some (Dir names) \<Rightarrow>
                    if tail = [] \<or> tail \<in> set names then nodes w
                    else (nodes w)(head \<mapsto> Dir (names @ [tail]))
                | _ \<Rightarrow> nodes w)
      in w\<lparr>nodes := ns(p \<mapsto> Dir [])\<rparr>)"

text \<open>
  The paths that \<^verbatim>\<open>os.makedirs\<close> hands to \<^verbatim>\<open>os.mkdir\<close>, outermost first: it calls itself
  on the parent as long as the parent does not exist, and then makes the directory, unless
  the last component is \<^verbatim>\<open>.\<close> and the parent has just been made. Paths are compared as
  strings: the model does not identify the different spellings of one path.
\<close>

function dir_chain :: "world \<Rightarrow> string \<Rightarrow> string list" where
  "dir_chain w name =
     (if fst (parent_and_name name) \<noteq> [] \<and> snd (parent_and_name name) \<noteq> [] \<and>
         nodes w (fst (parent_and_name name)) = None
      then dir_chain w (fst (parent_and_name name)) @
             (if snd (parent_and_name name) = ''.'' then [] else [name])
      else [name])"
  by pat_completeness auto

termination dir_chain
proof -
  have split_length: "length (fst (path_split p)) + length (snd (path_split p)) \<le> length p"
    for p
  proof -
    let ?tail = "rev (takeWhile (\<lambda>c. c \<noteq> CHR ''/'') (rev p))"
    let ?head = "take (length p - length ?tail) p"
    have t: "length ?tail \<le> length p"
      using length_takeWhile_le [of "\<lambda>c. c \<noteq> CHR ''/''" "rev p"] by simp
    then have h: "length ?head + length ?tail \<le> length p"
      by simp
    have "length (rev (dropWhile (\<lambda>c. c = CHR ''/'') (rev ?head))) \<le> length ?head"
      using length_dropWhile_le [of "\<lambda>c. c = CHR ''/''" "rev ?head"] by simp
    with h have d: "length (rev (dropWhile (\<lambda>c. c = CHR ''/'') (rev ?head))) + length ?tail
        \<le> length p"
      by linarith
    show ?thesis
    proof (cases "list_all (\<lambda>c. c = CHR ''/'') ?head")
      case True
      with h show ?thesis by (simp add: path_split_def Let_def)
    next
      case False
      with d show ?thesis by (simp add: path_split_def Let_def)
    qed
  qed
  have shorter: "length (fst (parent_and_name p)) < length p"
    if "snd (parent_and_name p) \<noteq> []" for p
  proof (cases "snd (path_split p)")
    case Nil
    with that obtain c cs where "snd (path_split (fst (path_split p))) = c # cs"
      by (cases "snd (path_split (fst (path_split p)))") (auto simp: parent_and_name_def)
    with split_length [of "fst (path_split p)"] split_length [of p] Nil
    show ?thesis by (simp add: parent_and_name_def)
  next
    case (Cons c cs)
    with split_length [of p] show ?thesis
      by (simp add: parent_and_name_def)
  qed
  show ?thesis
    by (relation "measure (\<lambda>(w, name). length name)") (auto intro: shorter)
qed

declare dir_chain.simps [simp del]

text \<open>
  \<^verbatim>\<open>os.makedirs\<close>: where it succeeds, the directory and its missing parents exist
  afterwards; otherwise it raises \<^verbatim>\<open>OSError\<close> and nothing is modelled as created.
\<close>

definition makedirs :: "world \<Rightarrow> string \<Rightarrow> pyerr + world" where
  "makedirs w p =
     (if creatable w p then Inr (foldl mkdir w (dir_chain w p)) else Inl OSError)"

text \<open>\<^verbatim>\<open>os.path.join\<close> with two arguments (POSIX).\<close>

definition join :: "string \<Rightarrow> string \<Rightarrow> string" where
  "join a b =
     (if take 1 b = ''/'' then b
      else if a = [] \<or> last a = CHR ''/'' then a @ b
      else a @ ''/'' @ b)"

section \<open>Checking the options\<close>

text \<open>
  The loop with \<^verbatim>\<open>else\<close> of \<^verbatim>\<open>check_options\<close>, over the listing of an input directory:
  \<open>Inr True\<close> when the loop leaves by \<^verbatim>\<open>break\<close> (a file whose header type is
  \<^verbatim>\<open>'wav'\<close>), \<open>Inr False\<close> when it runs to its end, so that the \<^verbatim>\<open>else\<close> branch is taken.
\<close>

fun scan_wavs :: "world \<Rightarrow> string \<Rightarrow> string list \<Rightarrow> pyerr + bool" where
  "scan_wavs w d [] = Inr False"
| "scan_wavs w d (f # fs) =
     (case what w (join d f) of
        Inl err \<Rightarrow> Inl err
      | Inr None \<Rightarrow> scan_wavs w d fs
      | Inr (Some t) \<Rightarrow> if t = ''wav'' then Inr True else scan_wavs w d fs)"

text \<open>
  \<^verbatim>\<open>check_options\<close>, threading the printed output, the flag \<^verbatim>\<open>is_invalid\<close> and the file
  system through the statements of the source in their order.
\<close>

definition check_options ::
  "world \<Rightarrow> string \<Rightarrow> string \<Rightarrow> string \<Rightarrow> pyval \<Rightarrow> string \<Rightarrow> out list \<times> world \<times> unit outcome" where
  "check_options w input_dir1 input_dir2 output_dir chunk_size usage =
     (let (out1, inv1) =
            (if \<not> isdir w input_dir1
             then ([Line ''Input directory 1 does not exist''], True) else ([], False));
          (out2, inv2) =
            (if \<not> isdir w input_dir2
             then (out1 @ [Line ''Input directory 2 does not exist''], True) else (out1, inv1))
      in case listdir w input_dir1 of
           Inl err \<Rightarrow> (out2, w, Raise err)
         | Inr names1 \<Rightarrow>
       (case scan_wavs w input_dir1 names1 of
           Inl err \<Rightarrow> (out2, w, Raise err)
         | Inr found1 \<Rightarrow>
       (let (out3, inv3) =
              (if \<not> found1
               then (out2 @ [Line ''No wavs in input directory 1''], True) else (out2, inv2))
        in case listdir w input_dir2 of
             Inl err \<Rightarrow> (out3, w, Raise err)
           | Inr names2 \<Rightarrow>
       (case scan_wavs w input_dir2 names2 of
           Inl err \<Rightarrow> (out3, w, Raise err)
         | Inr found2 \<Rightarrow>
       (let (out4, inv4) =
              (if \<not> found2
               then (out3 @ [Line ''No wavs in input directory 2''], True) else (out3, inv3));
            (out5, inv5, w') =
              (if \<not> isdir w output_dir
               then (case makedirs w output_dir of
                       Inl err \<Rightarrow> (out4 @ [Traceback err], True, w)
                     | Inr w1 \<Rightarrow> (out4, inv4, w1))
               else (out4, inv4, w));
            (out6, inv6) =
              (case chunk_size of
                 PyInt c \<Rightarrow>
                   if c < 10 \<or> c > 1000
                   then (out5 @ [Line ''Chunk size must be between 10 and 1000 (milliseconds)''],
                         True)
                   else (out5, inv5)
               | _ \<Rightarrow>
                   (out5 @ [Line ''Chunk size must be an integer between 10 and 1000''], True))
        in if inv6 then (out6 @ [Line usage], w', Exit 1) else (out6, w', Return ()))))))"

section \<open>Processing the command line\<close>

text \<open>The local variable \<^verbatim>\<open>usage\<close> of \<^verbatim>\<open>process_options\<close>.\<close>

definition usage :: string where
  \<open>usage = concat (map (\<lambda>l. l @ ''\<newline>'')
     ['''',
      ''    Usage: python chainlink.py --input1 <arg> --input2 <arg> --output <arg> '',
      ''                               --chunk_size <arg> [-v] [-m] [-c cores] [-h]'',
      '''',
      ''    Mandatory Options:'',
      '''',
      ''    --input1      Directory containing wav files to recreate with concatenative '',
      ''                  synthesis. Can contain other files, but this script will only'',
      ''                  process the wavs within.'',
      '''',
      ''    --input2      Directory conatining the "chain links," or a bunch of wavs that'',
      ''                  the script will use to recreate the wavs in 'input1'' @ [CHR 0x27],
      '''',
      ''    --output      Directory where you want the script to save output'',
      '''',
      ''    --chunk_size  Number between 10 and 1000. The chunk size in milleseconds, '',
      ''                  where a chunk is the segment of a sample from input1 that gets'',
      ''                  replaced by a segment of the same size from a sample within '',
      ''                  the input2 directory'',
      '''',
      ''    Optional Options:'',
      '''',
      ''    -v            Turn verbosity on - increases text output the script generates'',
      '''',
      ''    -m            Turn multiprocessing on - leverages multicore systems'',
      '''',
      ''    -c            Number of cores to use, defaults to 2 if multiprocessing is '',
      ''                  specified but the user doesn't pass an argument to this option'',
      '''',
      ''    -h            Print this usage message and exit'']) @ ''    ''\<close>

text \<open>\<^verbatim>\<open>os.linesep\<close> (POSIX).\<close>

definition linesep :: string where
  "linesep = ''\<newline>''"

section \<open>The option parser\<close>

text \<open>
  \<^verbatim>\<open>getopt.getopt\<close> of the standard library, which \<^verbatim>\<open>process_options\<close> calls first. It
  raises \<^verbatim>\<open>GetoptError\<close> on an option it does not know, on an ambiguous prefix of a long
  option and on a missing or unexpected argument.
\<close>

definition startswith :: "string \<Rightarrow> string \<Rightarrow> bool" where
  "startswith s p = (take (length p) s = p)"

text \<open>
  \<^verbatim>\<open>long_has_args\<close>: whether the long option takes an argument, and its full name. An exact
  match wins; otherwise the given text must be a prefix of exactly one long option.
\<close>

definition long_has_args :: "string \<Rightarrow> string list \<Rightarrow> pyerr + bool \<times> string" where
  "long_has_args opt longopts =
     (let possibilities = filter (\<lambda>l. startswith l opt) longopts
      in if possibilities = [] then Inl GetoptError
         else if opt \<in> set possibilities then Inr (False, opt)
         else if opt @ ''='' \<in> set possibilities then Inr (True, opt)
         else if 1 < length possibilities then Inl GetoptError
         else (let unique_match = hd possibilities;
                   has_arg = (unique_match \<noteq> [] \<and> last unique_match = CHR ''='')
               in Inr (has_arg, if has_arg then butlast unique_match else unique_match)))"

text \<open>
  \<^verbatim>\<open>do_longs\<close>: one argument \<^verbatim>\<open>--opt\<close> or \<^verbatim>\<open>--opt=arg\<close>; a required argument that is not
  attached is taken from the arguments that follow.
\<close>

definition do_longs ::
  "(string \<times> string) list \<Rightarrow> string \<Rightarrow> string list \<Rightarrow> string list \<Rightarrow>
   pyerr + (string \<times> string) list \<times> string list" where
  "do_longs opts opt longopts args =
     (let name = takeWhile (\<lambda>c. c \<noteq> CHR ''='') opt;
          optarg = (if CHR ''='' \<in> set opt
                    then Some (tl (dropWhile (\<lambda>c. c \<noteq> CHR ''='') opt)) else None)
      in case long_has_args name longopts of
           Inl err \<Rightarrow> Inl err
         | Inr (has_arg, full) \<Rightarrow>
             if has_arg
             then (case optarg of
                     Some a \<Rightarrow> Inr (opts @ [(''--'' @ full, a)], args)
                   | None \<Rightarrow>
                       (case args of
                          [] \<Rightarrow> Inl GetoptError
                        | a # rest \<Rightarrow> Inr (opts @ [(''--'' @ full, a)], rest)))
             else (case optarg of
                     Some a \<Rightarrow> Inl GetoptError
                   | None \<Rightarrow> Inr (opts @ [(''--'' @ full, [])], args)))"

text \<open>\<^verbatim>\<open>short_has_arg\<close>: whether the option letter is followed by a colon in \<^verbatim>\<open>shortopts\<close>.\<close>

fun short_has_arg :: "char \<Rightarrow> string \<Rightarrow> pyerr + bool" where
  "short_has_arg opt [] = Inl GetoptError"
| "short_has_arg opt (c # cs) =
     (if opt = c \<and> c \<noteq> CHR '':'' then Inr (take 1 cs = '':'') else short_has_arg opt cs)"

text \<open>
  \<^verbatim>\<open>do_shorts\<close>: the letters of one argument \<^verbatim>\<open>-xyz\<close>. A letter that takes an argument uses
  the rest of the word, or the next argument when it is the last letter.
\<close>

fun do_shorts ::
  "(string \<times> string) list \<Rightarrow> string \<Rightarrow> string \<Rightarrow> string list \<Rightarrow>
   pyerr + (string \<times> string) list \<times> string list" where
  "do_shorts opts [] shortopts args = Inr (opts, args)"
| "do_shorts opts (opt # optstring) shortopts args =
     (case short_has_arg opt shortopts of
        Inl err \<Rightarrow> Inl err
      | Inr True \<Rightarrow>
          if optstring = []
          then (case args of
                  [] \<Rightarrow> Inl GetoptError
                | a # rest \<Rightarrow> Inr (opts @ [([CHR ''-'', opt], a)], rest))
          else Inr (opts @ [([CHR ''-'', opt], optstring)], args)
      | Inr False \<Rightarrow> do_shorts (opts @ [([CHR ''-'', opt], [])]) optstring shortopts args)"

text \<open>
  The loop of \<^verbatim>\<open>getopt\<close>: it handles the arguments that start with a dash and stops at the
  first other argument, at a single dash and after \<^verbatim>\<open>--\<close>. It ends because every round
  removes at least one argument.
\<close>

function getopt_loop ::
  "(string \<times> string) list \<Rightarrow> string list \<Rightarrow> string \<Rightarrow> string list \<Rightarrow>
   pyerr + (string \<times> string) list \<times> string list" where
  "getopt_loop opts [] shortopts longopts = Inr (opts, [])"
| "getopt_loop opts (a # rest) shortopts longopts =
     (if startswith a ''-'' \<and> a \<noteq> ''-''
      then (if a = ''--'' then Inr (opts, rest)
            else if startswith a ''--''
            then (case do_longs opts (drop 2 a) longopts rest of
                    Inl err \<Rightarrow> Inl err
                  | Inr r \<Rightarrow> getopt_loop (fst r) (snd r) shortopts longopts)
            else (case do_shorts opts (drop 1 a) shortopts rest of
                    Inl err \<Rightarrow> Inl err
                  | Inr r \<Rightarrow> getopt_loop (fst r) (snd r) shortopts longopts))
      else Inr (opts, a # rest))"
  by pat_completeness auto

termination getopt_loop
proof -
  have longs: "length (snd r) \<le> length args"
    if "do_longs opts opt longopts args = Inr r" for opts opt longopts args r
    using that
    by (auto simp: do_longs_def Let_def split: sum.splits if_splits option.splits list.splits)
  have shorts: "length (snd r) \<le> length args"
    if "do_shorts opts optstring shortopts args = Inr r" for opts optstring shortopts args r
    using that
    by (induction opts optstring shortopts args rule: do_shorts.induct)
      (auto split: sum.splits if_splits list.splits bool.splits)
  show ?thesis
    by (relation "measure (\<lambda>(opts, args, shortopts, longopts). length args)")
      (auto dest: longs shorts simp: less_Suc_eq_le)
qed

declare getopt_loop.simps [simp del]

definition getopt ::
  "string list \<Rightarrow> string \<Rightarrow> string list \<Rightarrow> pyerr + (string \<times> string) list \<times> string list" where
  "getopt args shortopts longopts = getopt_loop [] args shortopts longopts"

section \<open>The option loop and its checks\<close>

text \<open>
  The local variables of \<^verbatim>\<open>process_options\<close>. The four mandatory ones are unbound
  (\<open>None\<close>) until the loop assigns them; \<^verbatim>\<open>chunk_size\<close> only ever receives the result of
  \<^verbatim>\<open>int(arg)\<close>.
\<close>

record locals =
  input_dir1 :: "string option"
  input_dir2 :: "string option"
  output_dir :: "string option"
  chunk_size :: "int option"
  is_verbose :: bool
  is_mp :: bool
  cores :: pyval
  mandatory_checks :: int

definition initial_locals :: locals where
  "initial_locals =
     \<lparr>input_dir1 = None, input_dir2 = None, output_dir = None, chunk_size = None,
      is_verbose = False, is_mp = False, cores = PyInt 2, mandatory_checks = 0\<rparr>"

text \<open>
  The body of the loop \<^verbatim>\<open>for opt, arg in options\<close>, for one pair. Every argument that
  \<^verbatim>\<open>getopt\<close> delivers is a string, so each test \<^verbatim>\<open>arg is not None\<close> holds. The built-in
  \<^verbatim>\<open>int\<close> on a string is the parameter \<open>int_of_str\<close>, \<open>None\<close> where it raises
  \<^verbatim>\<open>ValueError\<close>. The result is what the step printed and how it ended; \<open>Return s\<close>
  continues the loop with the locals \<open>s\<close>.
\<close>

definition option_step ::
  "(string \<Rightarrow> int option) \<Rightarrow> string \<times> string \<Rightarrow> locals \<Rightarrow> out list \<times> locals outcome" where
  "option_step int_of_str x s =
     (let opt = fst x; arg = snd x;
          s1 = (if opt = ''--input1''
                then s\<lparr>input_dir1 := Some arg, mandatory_checks := mandatory_checks s + 1\<rparr>
                else s);
          s2 = (if opt = ''--input2''
                then s1\<lparr>input_dir2 := Some arg, mandatory_checks := mandatory_checks s1 + 1\<rparr>
                else s1);
          s3 = (if opt = ''--output''
                then s2\<lparr>output_dir := Some arg, mandatory_checks := mandatory_checks s2 + 1\<rparr>
                else s2);
          r4 = (if opt = ''--chunk_size''
                then (case int_of_str arg of
                        None \<Rightarrow> Inl ValueError
                      | Some c \<Rightarrow> Inr (s3\<lparr>chunk_size := Some c,
                                           mandatory_checks := mandatory_checks s3 + 1\<rparr>))
                else Inr s3)
      in case r4 of
           Inl err \<Rightarrow> ([], Raise err)
         | Inr s4 \<Rightarrow>
             (let s5 = (if opt = ''-v'' then s4\<lparr>is_verbose := True\<rparr> else s4);
                  s6 = (if opt = ''-m'' then s5\<lparr>is_mp := True\<rparr> else s5);
                  s7 = (if opt = ''-c'' then s6\<lparr>cores := PyStr arg\<rparr> else s6)
              in if opt = ''-h'' then ([Line usage], Exit 0) else ([], Return s7)))"

fun scan_options ::
  "(string \<Rightarrow> int option) \<Rightarrow> (string \<times> string) list \<Rightarrow> locals \<Rightarrow> out list \<times> locals outcome" where
  "scan_options int_of_str [] s = ([], Return s)"
| "scan_options int_of_str (x # xs) s =
     (case option_step int_of_str x s of
        (out, Return s') \<Rightarrow>
          (case scan_options int_of_str xs s' of (out', r) \<Rightarrow> (out @ out', r))
      | (out, Exit n) \<Rightarrow> (out, Exit n)
      | (out, Raise err) \<Rightarrow> (out, Raise err))"

text \<open>
  \<^verbatim>\<open>process_options\<close>, on the command line \<^verbatim>\<open>sys.argv[1:]\<close>. An exception of \<^verbatim>\<open>getopt\<close>
  is not caught. After the loop, reading a local that was never assigned raises
  \<^verbatim>\<open>UnboundLocalError\<close>.
\<close>

definition process_options ::
  "world \<Rightarrow> (string \<Rightarrow> int option) \<Rightarrow> string list \<Rightarrow>
   out list \<times> world \<times> (string \<times> string \<times> string \<times> int \<times> bool \<times> bool \<times> pyval) outcome" where
  "process_options w int_of_str argv =
     (case getopt argv ''hvmc:'' [''input1='', ''input2='', ''output='', ''chunk_size=''] of
        Inl err \<Rightarrow> ([], w, Raise err)
      | Inr parsed \<Rightarrow>
     (case scan_options int_of_str (fst parsed) initial_locals of
        (out, Exit n) \<Rightarrow> (out, w, Exit n)
      | (out, Raise err) \<Rightarrow> (out, w, Raise err)
      | (out, Return s) \<Rightarrow>
          if mandatory_checks s \<noteq> 4
          then (out @ [Line (linesep @ ''Errors detected with mandatory options''), Line usage],
                w, Exit 1)
          else
            (case input_dir1 s of None \<Rightarrow> (out, w, Raise UnboundLocalError) | Some d1 \<Rightarrow>
            (case input_dir2 s of None \<Rightarrow> (out, w, Raise UnboundLocalError) | Some d2 \<Rightarrow>
            (case output_dir s of None \<Rightarrow> (out, w, Raise UnboundLocalError) | Some od \<Rightarrow>
            (case chunk_size s of None \<Rightarrow> (out, w, Raise UnboundLocalError) | Some c \<Rightarrow>
            (case check_options w d1 d2 od (PyInt c) usage of
               (out', w', Return u) \<Rightarrow>
                 (out @ out', w', Return (d1, d2, od, c, is_verbose s, is_mp s, cores s))
             | (out', w', Exit n) \<Rightarrow> (out @ out', w', Exit n)
             | (out', w', Raise err) \<Rightarrow> (out @ out', w', Raise err))))))))"

section \<open>Example inputs\<close>

text \<open>
  A parser that agrees with \<^verbatim>\<open>int\<close> on plain decimal numerals with an optional minus sign
  and rejects every other string; it instantiates \<open>int_of_str\<close> in the examples.
\<close>

definition digit_of :: "char \<Rightarrow> int option" where
  "digit_of c =
     (let n = (of_char c :: nat) in if 48 \<le> n \<and> n \<le> 57 then Some (int n - 48) else None)"

fun digits_val :: "int \<Rightarrow> string \<Rightarrow> int option" where
  "digits_val acc [] = Some acc"
| "digits_val acc (c # cs) =
     (case digit_of c of None \<Rightarrow> None | Some d \<Rightarrow> digits_val (10 * acc + d) cs)"

definition decimal_int :: "string \<Rightarrow> int option" where
  "decimal_int s =
     (case s of
        [] \<Rightarrow> None
      | c # cs \<Rightarrow>
          if c = CHR ''-''
          then (if cs = [] then None else map_option uminus (digits_val 0 cs))
          else digits_val 0 s)"

text \<open>
  A file system with two input directories holding one wav file each, a directory without
  files and an existing output directory.
\<close>

definition example_world :: world where
  "example_world =
     \<lparr>nodes = [''in1'' \<mapsto> Dir [''notes.txt'', ''a.wav''],
               ''in1/notes.txt'' \<mapsto> File None,
               ''in1/a.wav'' \<mapsto> File (Some ''wav''),
               ''in2'' \<mapsto> Dir [''b.wav''],
               ''in2/b.wav'' \<mapsto> File (Some ''wav''),
               ''empty'' \<mapsto> Dir [],
               ''out'' \<mapsto> Dir []],
      creatable = (\<lambda>p. p \<noteq> ''in1/notes.txt/sub'')\<rparr>"

section \<open>Notions used in the statements\<close>

text \<open>
  The options that \<^verbatim>\<open>getopt\<close> returns to \<^verbatim>\<open>process_options\<close> for a command line, \<open>None\<close>
  when it raises.
\<close>

definition parsed_options :: "string list \<Rightarrow> (string \<times> string) list option" where
  "parsed_options argv =
     (case getopt argv ''hvmc:'' [''input1='', ''input2='', ''output='', ''chunk_size=''] of
        Inl err \<Rightarrow> None
      | Inr parsed \<Rightarrow> Some (fst parsed))"

text \<open>The four options that \<^verbatim>\<open>process_options\<close> counts in \<^verbatim>\<open>mandatory_checks\<close>.\<close>

definition mandatory :: "string list" where
  "mandatory = [''--input1'', ''--input2'', ''--output'', ''--chunk_size'']"

text \<open>How often an option occurs among the parsed options.\<close>

definition occurrences :: "string \<Rightarrow> (string \<times> string) list \<Rightarrow> nat" where
  "occurrences name ops = length (filter (\<lambda>x. fst x = name) ops)"

text \<open>The arguments of the occurrences of an option, in their order.\<close>

definition args_of :: "string \<Rightarrow> (string \<times> string) list \<Rightarrow> string list" where
  "args_of name ops = map snd (filter (\<lambda>x. fst x = name) ops)"

text \<open>No option of the list is the help option.\<close>

definition no_help :: "(string \<times> string) list \<Rightarrow> bool" where
  "no_help ops = list_all (\<lambda>x. fst x \<noteq> ''-h'') ops"

text \<open>Every argument of a \<^verbatim>\<open>--chunk_size\<close> option in the list is accepted by \<^verbatim>\<open>int\<close>.\<close>

definition chunk_args_ok :: "(string \<Rightarrow> int option) \<Rightarrow> (string \<times> string) list \<Rightarrow> bool" where
  "chunk_args_ok int_of_str ops =
     list_all (\<lambda>x. fst x \<noteq> ''--chunk_size'' \<or> int_of_str (snd x) \<noteq> None) ops"

text \<open>
  The end of \<^verbatim>\<open>process_options\<close> once the mandatory check is passed: whatever
  \<^verbatim>\<open>check_options\<close> printed and did to the file system, and the tuple \<open>v\<close> returned where
  \<^verbatim>\<open>check_options\<close> returned.
\<close>

definition returning :: "out list \<times> world \<times> unit outcome \<Rightarrow> 'a \<Rightarrow> out list \<times> world \<times> 'a outcome" where
  "returning r v =
     (case snd (snd r) of
        Return u \<Rightarrow> (fst r, fst (snd r), Return v)
      | Exit n \<Rightarrow> (fst r, fst (snd r), Exit n)
      | Raise err \<Rightarrow> (fst r, fst (snd r), Raise err))"

section \<open>Properties of the frame conversion\<close>

lemma convert_ms_to_frames_example:
  "convert_ms_to_frames 100 44100 = Inr 4410"
  by code_simp

text \<open>
  C1: for a positive framerate and a chunk size in \<open>[10, 1000]\<close> the function should return
  \<open>floor (framerate * chunk_size_ms / 1000)\<close>, and its docstring says it rounds the product
  down. At \<open>chunk_size_ms = 350\<close> and \<open>framerate = 44100\<close> the exact product is \<open>15435\<close>,
  but the double nearest to \<open>0.35\<close> lies below \<open>0.35\<close>, the product rounds to a double
  just below \<open>15435\<close>, and the function returns \<open>15434\<close>.
\<close>

theorem convert_ms_to_frames_not_floor:
  "convert_ms_to_frames 350 44100 = Inr 15434 \<and> (44100 * 350) div 1000 = (15435 :: int)"
  by code_simp



section \<open>Properties of the file system operations\<close>

lemma listdir_Inr_isdir: "listdir w p = Inr names \<Longrightarrow> isdir w p"
  by (auto simp: listdir_def isdir_def split: option.splits node.splits)

lemma listdir_not_isdir: "\<not> isdir w p \<Longrightarrow> listdir w p = Inl OSError"
  by (auto simp: listdir_def isdir_def split: option.splits node.splits)

lemma scan_wavs_append:
  "scan_wavs w d (xs @ ys) =
     (case scan_wavs w d xs of Inl err \<Rightarrow> Inl err | Inr True \<Rightarrow> Inr True
      | Inr False \<Rightarrow> scan_wavs w d ys)"
  by (induction xs) (auto split: sum.splits option.splits)

text \<open>
  When no entry makes \<^verbatim>\<open>sndhdr.what\<close> raise, the scan answers whether the listing holds a
  file of type wav.
\<close>

lemma scan_wavs_found:
  "list_all (\<lambda>f. \<exists>hdr. what w (join d f) = Inr hdr) names \<Longrightarrow>
   scan_wavs w d names = Inr (list_ex (\<lambda>f. what w (join d f) = Inr (Some ''wav'')) names)"
  by (induction names) (auto split: sum.splits option.splits)

text \<open>
  After a successful \<^verbatim>\<open>os.makedirs\<close> the path is a directory, when its last component is
  not \<^verbatim>\<open>.\<close>.
\<close>

lemma mkdir_isdir: "isdir (mkdir w p) p"
  by (simp add: mkdir_def isdir_def Let_def)

lemma dir_chain_last:
  "snd (parent_and_name p) \<noteq> ''.'' \<Longrightarrow> \<exists>xs. dir_chain w p = xs @ [p]"
  by (subst dir_chain.simps) simp

lemma makedirs_isdir:
  assumes "makedirs w p = Inr w'" and "snd (parent_and_name p) \<noteq> ''.''"
  shows "isdir w' p"
proof -
  obtain xs where "dir_chain w p = xs @ [p]"
    using dir_chain_last [OF assms(2)] by blast
  with assms(1) have "w' = mkdir (foldl mkdir w xs) p"
    by (auto simp: makedirs_def split: if_splits)
  then show ?thesis
    by (simp add: mkdir_isdir)
qed

section \<open>Properties of the option check\<close>

lemma check_options_not_dir1:
  "\<not> isdir w d1 \<Longrightarrow> snd (snd (check_options w d1 d2 od cs u)) = Raise OSError"
  by (simp add: check_options_def listdir_not_isdir split: prod.splits)

lemma check_options_valid_inputs:
  assumes "listdir w d1 = Inr n1" and "scan_wavs w d1 n1 = Inr True"
    and "listdir w d2 = Inr n2" and "scan_wavs w d2 n2 = Inr True"
  shows "check_options w d1 d2 od (PyInt c) u =
     (let (out5, inv5, w') =
            (if \<not> isdir w od
             then (case makedirs w od of
                     Inl err \<Rightarrow> ([Traceback err], True, w)
                   | Inr w1 \<Rightarrow> ([], False, w1))
             else ([], False, w));
          (out6, inv6) =
            (if c < 10 \<or> c > 1000
             then (out5 @ [Line ''Chunk size must be between 10 and 1000 (milliseconds)''], True)
             else (out5, inv5))
      in if inv6 then (out6 @ [Line u], w', Exit 1) else (out6, w', Return ()))"
  using assms listdir_Inr_isdir [of w d1 n1] listdir_Inr_isdir [of w d2 n2]
  by (simp add: check_options_def split: sum.splits)


text \<open>
  Once both input directories have been listed and scanned without an exception, a
  missing output directory is handed to \<^verbatim>\<open>os.makedirs\<close>: the file system afterwards is the
  one it leaves, the traceback is printed exactly when it fails, and a failure ends the
  run with status 1 whatever the other checks found.
\<close>

lemma check_options_output_step:
  assumes "listdir w d1 = Inr n1" and "scan_wavs w d1 n1 = Inr f1"
    and "listdir w d2 = Inr n2" and "scan_wavs w d2 n2 = Inr f2"
    and "\<not> isdir w od"
  shows "fst (snd (check_options w d1 d2 od cs u)) =
           (if creatable w od then foldl mkdir w (dir_chain w od) else w)"
    and "Traceback OSError \<in> set (fst (check_options w d1 d2 od cs u)) \<longleftrightarrow> \<not> creatable w od"
    and "\<not> creatable w od \<Longrightarrow> snd (snd (check_options w d1 d2 od cs u)) = Exit 1"
    and "creatable w od \<Longrightarrow> f1 \<Longrightarrow> f2 \<Longrightarrow> 10 \<le> c \<Longrightarrow> c \<le> 1000 \<Longrightarrow>
           check_options w d1 d2 od (PyInt c) u = ([], foldl mkdir w (dir_chain w od), Return ())"
  using assms listdir_Inr_isdir [of w d1 n1] listdir_Inr_isdir [of w d2 n2]
  by (auto simp: check_options_def makedirs_def Let_def split: pyval.splits)

lemma ex_listdir1: "listdir example_world ''in1'' = Inr [''notes.txt'', ''a.wav'']"
  by (simp add: listdir_def example_world_def)

lemma ex_listdir2: "listdir example_world ''in2'' = Inr [''b.wav'']"
  by (simp add: listdir_def example_world_def)

lemma ex_scan1: "scan_wavs example_world ''in1'' [''notes.txt'', ''a.wav''] = Inr True"
  by (simp add: what_def join_def example_world_def)

lemma ex_scan2: "scan_wavs example_world ''in2'' [''b.wav''] = Inr True"
  by (simp add: what_def join_def example_world_def)

lemma ex_isdir_out: "isdir example_world ''out''"
  by (simp add: isdir_def example_world_def)

lemma ex_isdir_new: "\<not> isdir example_world ''new/out''"
  by (simp add: isdir_def example_world_def)



text \<open>
  A missing output directory below a missing parent: both are created, and the new parent
  lists the new directory.
\<close>

lemma ex_makedirs:
  "check_options example_world ''in1'' ''in2'' ''new/out'' (PyInt 100) usage =
     ([], foldl mkdir example_world [''new'', ''new/out''], Return ()) \<and>
   nodes (foldl mkdir example_world [''new'', ''new/out'']) ''new'' = Some (Dir [''out'']) \<and>
   nodes (foldl mkdir example_world [''new'', ''new/out'']) ''new/out'' = Some (Dir [])"
proof -
  have chain: "dir_chain example_world ''new/out'' = [''new'', ''new/out'']"
    by (simp add: dir_chain.simps parent_and_name_def path_split_def example_world_def)
  have "creatable example_world ''new/out''"
    by (simp add: example_world_def)
  from check_options_output_step(4) [OF ex_listdir1 ex_scan1 ex_listdir2 ex_scan2 ex_isdir_new this,
      of 100 usage] chain
  show ?thesis
    by (simp add: mkdir_def parent_and_name_def path_split_def example_world_def Let_def)
qed

text \<open>
  C2: a missing input directory should be reported with the usage text and end the run
  with status 1, with no exception escaping \<^verbatim>\<open>check_options\<close>. The function prints that
  the directory does not exist and sets \<^verbatim>\<open>is_invalid\<close>, but then goes on to call
  \<^verbatim>\<open>os.listdir\<close> on the missing directory, which raises: the usage text is never
  printed and the exception leaves the function.
\<close>

theorem check_options_missing_input_dir:
  "check_options example_world ''nowhere'' ''in2'' ''out'' (PyInt 100) usage =
     ([Line ''Input directory 1 does not exist''], example_world, Raise OSError) \<and>
   check_options example_world ''in1'' ''nowhere'' ''out'' (PyInt 100) usage =
     ([Line ''Input directory 2 does not exist''], example_world, Raise OSError)"
  by (simp add: check_options_def example_world_def isdir_def listdir_def what_def join_def)

text \<open>
  C5: an input directory without wav files should be reported with the usage text before
  the run ends. For an empty first input directory and a missing second one the function
  prints that there are no wavs in input directory 1, and then \<^verbatim>\<open>os.listdir\<close> raises on
  the second directory before the usage text is printed.
\<close>

theorem check_options_no_wavs_then_raises:
  "check_options example_world ''empty'' ''nowhere'' ''out'' (PyInt 100) usage =
     ([Line ''Input directory 2 does not exist'', Line ''No wavs in input directory 1''],
      example_world, Raise OSError)"
  by (simp add: check_options_def example_world_def isdir_def listdir_def what_def join_def)

text \<open>
  C10: whenever the output directory does not exist, \<^verbatim>\<open>check_options\<close> should try to create
  it and count the configuration as invalid only if that fails. With a missing first input
  directory the function never gets that far: \<^verbatim>\<open>os.listdir\<close> raises before the output
  directory is looked at, nothing is created and the file system is unchanged.
\<close>

theorem check_options_output_dir_not_reached:
  "\<not> isdir example_world ''new/out'' \<and> creatable example_world ''new/out'' \<and>
   check_options example_world ''nowhere'' ''in2'' ''new/out'' (PyInt 100) usage =
     ([Line ''Input directory 1 does not exist''], example_world, Raise OSError)"
  by (simp add: check_options_def example_world_def isdir_def listdir_def what_def join_def)

section \<open>Properties of the option loop\<close>

lemma usage_not_message:
  "usage \<noteq> ''Chunk size must be an integer between 10 and 1000''"
  by (simp add: usage_def)

lemma option_step_help: "fst x = ''-h'' \<Longrightarrow> option_step f x s = ([Line usage], Exit 0)"
  by (simp add: option_step_def)

lemma option_step_bad_chunk:
  "f a = None \<Longrightarrow> option_step f (''--chunk_size'', a) s = ([], Raise ValueError)"
  by (simp add: option_step_def)

lemma option_step_cases:
  assumes "fst x \<noteq> ''-h''"
  shows "option_step f x s = ([], Raise ValueError) \<and> fst x = ''--chunk_size'' \<and>
           f (snd x) = None \<or>
         (\<exists>s'. option_step f x s = ([], Return s'))"
  using assms by (auto simp: option_step_def Let_def split: option.splits)

lemma option_step_ok:
  assumes "fst x \<noteq> ''-h''"
    and "fst x \<noteq> ''--chunk_size'' \<or> f (snd x) \<noteq> None"
  shows "\<exists>s'. option_step f x s = ([], Return s')"
  using assms by (auto simp: option_step_def Let_def split: option.splits)

lemma option_step_Return:
  assumes "option_step f x s = (out, Return s')"
  shows "mandatory_checks s' = mandatory_checks s + (if fst x \<in> set mandatory then 1 else 0)"
    and "cores s' = (if fst x = ''-c'' then PyStr (snd x) else cores s)"
    and "is_mp s' = (is_mp s \<or> fst x = ''-m'')"
    and "is_verbose s' = (is_verbose s \<or> fst x = ''-v'')"
    and "input_dir1 s' = (if fst x = ''--input1'' then Some (snd x) else input_dir1 s)"
    and "input_dir2 s' = (if fst x = ''--input2'' then Some (snd x) else input_dir2 s)"
    and "output_dir s' = (if fst x = ''--output'' then Some (snd x) else output_dir s)"
    and "chunk_size s' = (if fst x = ''--chunk_size'' then f (snd x) else chunk_size s)"
    and "out = []"
  using assms
  by (auto simp: option_step_def Let_def mandatory_def split: option.splits if_splits)

lemma scan_options_help:
  "chunk_args_ok f pre \<Longrightarrow>
   scan_options f (pre @ (''-h'', a) # post) s = ([Line usage], Exit 0)"
proof (induction pre arbitrary: s)
  case Nil
  then show ?case by (simp add: option_step_help)
next
  case (Cons x pre)
  show ?case
  proof (cases "fst x = ''-h''")
    case True
    then show ?thesis by (simp add: option_step_help)
  next
    case False
    with Cons.prems obtain s' where "option_step f x s = ([], Return s')"
      using option_step_ok [of x f s] by (auto simp: chunk_args_ok_def)
    moreover from Cons.prems have "chunk_args_ok f pre"
      by (simp add: chunk_args_ok_def)
    ultimately show ?thesis
      using Cons.IH [of s'] by simp
  qed
qed

lemma scan_options_bad_chunk:
  "no_help pre \<Longrightarrow> f a = None \<Longrightarrow>
   scan_options f (pre @ (''--chunk_size'', a) # post) s = ([], Raise ValueError)"
proof (induction pre arbitrary: s)
  case Nil
  then show ?case by (simp add: option_step_bad_chunk)
next
  case (Cons x pre)
  from Cons.prems have nh: "fst x \<noteq> ''-h''" and rest: "no_help pre"
    by (simp_all add: no_help_def)
  from option_step_cases [OF nh, of f s] show ?case
  proof
    assume "option_step f x s = ([], Raise ValueError) \<and> fst x = ''--chunk_size'' \<and>
      f (snd x) = None"
    then show ?thesis by simp
  next
    assume "\<exists>s'. option_step f x s = ([], Return s')"
    then obtain s' where "option_step f x s = ([], Return s')" ..
    then show ?thesis
      using Cons.IH [OF rest Cons.prems(2), of s'] by simp
  qed
qed

lemma scan_options_completes:
  "no_help ops \<Longrightarrow> chunk_args_ok f ops \<Longrightarrow> \<exists>s'. scan_options f ops s = ([], Return s')"
proof (induction ops arbitrary: s)
  case Nil
  then show ?case by simp
next
  case (Cons x ops)
  from Cons.prems obtain s1 where "option_step f x s = ([], Return s1)"
    using option_step_ok [of x f s] by (auto simp: no_help_def chunk_args_ok_def)
  moreover from Cons.prems obtain s' where "scan_options f ops s1 = ([], Return s')"
    using Cons.IH [of s1] by (auto simp: no_help_def chunk_args_ok_def)
  ultimately show ?case by simp
qed

lemma scan_options_shape:
  "scan_options f ops s = (out, r) \<Longrightarrow>
   out = [] \<and> r = Raise ValueError \<or>
   out = [Line usage] \<and> r = Exit 0 \<and> \<not> no_help ops \<or>
   out = [] \<and> (\<exists>s'. r = Return s')"
proof (induction ops arbitrary: s out r)
  case Nil
  then show ?case by auto
next
  case (Cons x ops)
  show ?case
  proof (cases "fst x = ''-h''")
    case True
    with Cons.prems show ?thesis
      by (auto simp: option_step_help no_help_def)
  next
    case False
    from option_step_cases [OF False, of f s] show ?thesis
    proof
      assume "option_step f x s = ([], Raise ValueError) \<and> fst x = ''--chunk_size'' \<and>
        f (snd x) = None"
      with Cons.prems show ?thesis by auto
    next
      assume "\<exists>s'. option_step f x s = ([], Return s')"
      then obtain s' where step: "option_step f x s = ([], Return s')" ..
      with Cons.prems have "scan_options f ops s' = (out, r)"
        by (auto split: prod.splits)
      from Cons.IH [OF this] False show ?thesis
        by (auto simp: no_help_def)
    qed
  qed
qed

lemma scan_options_ConsD:
  assumes "scan_options f (x # ops) s = (out, Return s')"
  obtains s1 o2 where "option_step f x s = ([], Return s1)"
    and "scan_options f ops s1 = (o2, Return s')"
proof -
  from assms obtain o1 s1 o2 where step: "option_step f x s = (o1, Return s1)"
    and rest: "scan_options f ops s1 = (o2, Return s')"
    by (auto split: prod.splits outcome.splits)
  from option_step_Return(9) [OF step] step rest that show ?thesis
    by simp
qed

text \<open>What the loop leaves in the locals when it runs to its end.\<close>

lemma scan_options_Return:
  assumes "scan_options f ops s = (out, Return s')"
  shows "mandatory_checks s' =
           mandatory_checks s + int (occurrences ''--input1'' ops + occurrences ''--input2'' ops +
             occurrences ''--output'' ops + occurrences ''--chunk_size'' ops)"
    and "cores s' = (if args_of ''-c'' ops = [] then cores s else PyStr (last (args_of ''-c'' ops)))"
    and "is_mp s' = (is_mp s \<or> ''-m'' \<in> fst ` set ops)"
    and "is_verbose s' = (is_verbose s \<or> ''-v'' \<in> fst ` set ops)"
    and "input_dir1 s' = (if args_of ''--input1'' ops = [] then input_dir1 s
                          else Some (last (args_of ''--input1'' ops)))"
    and "input_dir2 s' = (if args_of ''--input2'' ops = [] then input_dir2 s
                          else Some (last (args_of ''--input2'' ops)))"
    and "output_dir s' = (if args_of ''--output'' ops = [] then output_dir s
                          else Some (last (args_of ''--output'' ops)))"
    and "chunk_size s' = (if args_of ''--chunk_size'' ops = [] then chunk_size s
                          else f (last (args_of ''--chunk_size'' ops)))"
  using assms
proof (induction ops arbitrary: s out)
  case Nil
  {
    case 1 then show ?case by (simp add: occurrences_def)
  next
    case 2 then show ?case by (simp add: args_of_def)
  next
    case 3 then show ?case by simp
  next
    case 4 then show ?case by simp
  next
    case 5 then show ?case by (simp add: args_of_def)
  next
    case 6 then show ?case by (simp add: args_of_def)
  next
    case 7 then show ?case by (simp add: args_of_def)
  next
    case 8 then show ?case by (simp add: args_of_def)
  }
next
  case (Cons x ops)
  {
    case 1
    then obtain s1 o2 where step: "option_step f x s = ([], Return s1)"
      and rest: "scan_options f ops s1 = (o2, Return s')"
      by (rule scan_options_ConsD)
    from Cons.IH(1) [OF rest] option_step_Return(1) [OF step] show ?case
      by (auto simp: occurrences_def mandatory_def)
  next
    case 2
    then obtain s1 o2 where step: "option_step f x s = ([], Return s1)"
      and rest: "scan_options f ops s1 = (o2, Return s')"
      by (rule scan_options_ConsD)
    from Cons.IH(2) [OF rest] option_step_Return(2) [OF step] show ?case
      by (auto simp: args_of_def)
  next
    case 3
    then obtain s1 o2 where step: "option_step f x s = ([], Return s1)"
      and rest: "scan_options f ops s1 = (o2, Return s')"
      by (rule scan_options_ConsD)
    from Cons.IH(3) [OF rest] option_step_Return(3) [OF step] show ?case
      by auto
  next
    case 4
    then obtain s1 o2 where step: "option_step f x s = ([], Return s1)"
      and rest: "scan_options f ops s1 = (o2, Return s')"
      by (rule scan_options_ConsD)
    from Cons.IH(4) [OF rest] option_step_Return(4) [OF step] show ?case
      by auto
  next
    case 5
    then obtain s1 o2 where step: "option_step f x s = ([], Return s1)"
      and rest: "scan_options f ops s1 = (o2, Return s')"
      by (rule scan_options_ConsD)
    from Cons.IH(5) [OF rest] option_step_Return(5) [OF step] show ?case
      by (auto simp: args_of_def)
  next
    case 6
    then obtain s1 o2 where step: "option_step f x s = ([], Return s1)"
      and rest: "scan_options f ops s1 = (o2, Return s')"
      by (rule scan_options_ConsD)
    from Cons.IH(6) [OF rest] option_step_Return(6) [OF step] show ?case
      by (auto simp: args_of_def)
  next
    case 7
    then obtain s1 o2 where step: "option_step f x s = ([], Return s1)"
      and rest: "scan_options f ops s1 = (o2, Return s')"
      by (rule scan_options_ConsD)
    from Cons.IH(7) [OF rest] option_step_Return(7) [OF step] show ?case
      by (auto simp: args_of_def)
  next
    case 8
    then obtain s1 o2 where step: "option_step f x s = ([], Return s1)"
      and rest: "scan_options f ops s1 = (o2, Return s')"
      by (rule scan_options_ConsD)
    from Cons.IH(8) [OF rest] option_step_Return(8) [OF step] show ?case
      by (auto simp: args_of_def)
  }
qed

section \<open>Properties of the command line processing\<close>

lemma parsed_options_SomeD:
  "parsed_options argv = Some ops \<Longrightarrow>
   \<exists>rest. getopt argv ''hvmc:'' [''input1='', ''input2='', ''output='', ''chunk_size='']
            = Inr (ops, rest)"
  by (auto simp: parsed_options_def split: sum.splits)

text \<open>A command line that \<^verbatim>\<open>getopt\<close> rejects ends \<^verbatim>\<open>process_options\<close> by its exception.\<close>

lemma process_options_rejected:
  "parsed_options argv = None \<Longrightarrow> \<exists>err. process_options w f argv = ([], w, Raise err)"
  by (auto simp: parsed_options_def process_options_def split: sum.splits)

lemma process_options_scan_stops:
  assumes "parsed_options argv = Some ops"
    and "scan_options f ops initial_locals = (out, r)" and "\<forall>s. r \<noteq> Return s"
  shows "process_options w f argv =
           (out, w, case r of Exit n \<Rightarrow> Exit n | Raise err \<Rightarrow> Raise err | Return s \<Rightarrow> Exit 1)"
proof -
  from parsed_options_SomeD [OF assms(1)] obtain rest
    where "getopt argv ''hvmc:'' [''input1='', ''input2='', ''output='', ''chunk_size='']
             = Inr (ops, rest)" ..
  with assms(2,3) show ?thesis
    by (cases r) (simp_all add: process_options_def)
qed

lemma process_options_scan_returns:
  assumes "parsed_options argv = Some ops"
    and "scan_options f ops initial_locals = ([], Return s)"
  shows "process_options w f argv =
     (if mandatory_checks s \<noteq> 4
      then ([Line (linesep @ ''Errors detected with mandatory options''), Line usage], w, Exit 1)
      else
        (case input_dir1 s of None \<Rightarrow> ([], w, Raise UnboundLocalError) | Some d1 \<Rightarrow>
        (case input_dir2 s of None \<Rightarrow> ([], w, Raise UnboundLocalError) | Some d2 \<Rightarrow>
        (case output_dir s of None \<Rightarrow> ([], w, Raise UnboundLocalError) | Some od \<Rightarrow>
        (case chunk_size s of None \<Rightarrow> ([], w, Raise UnboundLocalError) | Some c \<Rightarrow>
           returning (check_options w d1 d2 od (PyInt c) usage)
             (d1, d2, od, c, is_verbose s, is_mp s, cores s))))))"
proof -
  from parsed_options_SomeD [OF assms(1)] obtain rest
    where g: "getopt argv ''hvmc:'' [''input1='', ''input2='', ''output='', ''chunk_size='']
             = Inr (ops, rest)" ..
  have r: "(case x of (out', w', Return u) \<Rightarrow> (out', w', Return v)
            | (out', w', Exit n) \<Rightarrow> (out', w', Exit n)
            | (out', w', Raise err) \<Rightarrow> (out', w', Raise err)) = returning x v"
    for x :: "out list \<times> world \<times> unit outcome"
      and v :: "string \<times> string \<times> string \<times> int \<times> bool \<times> bool \<times> pyval"
    by (cases x; cases "snd (snd x)") (auto simp: returning_def)
  from g assms(2) show ?thesis
    by (simp add: process_options_def r split: option.splits)
qed

lemma returning_Return:
  "returning r v = (out, w', Return v') \<Longrightarrow> v' = v"
  by (cases "snd (snd r)") (auto simp: returning_def)

lemma returning_Exit:
  "returning r v = (out, w', Exit n) \<Longrightarrow> r = (out, w', Exit n)"
  by (cases r; cases "snd (snd r)") (auto simp: returning_def)

lemma returning_fst: "fst (returning r v) = fst r"
  by (cases "snd (snd r)") (auto simp: returning_def)

text \<open>What a return of \<^verbatim>\<open>process_options\<close> tells about the loop.\<close>

lemma process_options_ReturnD:
  assumes "process_options w f argv = (out, w', Return (d1, d2, od, c, v, m, k))"
    and "parsed_options argv = Some ops"
  shows "\<exists>s. scan_options f ops initial_locals = ([], Return s) \<and> mandatory_checks s = 4 \<and>
           cores s = k \<and> is_mp s = m \<and> is_verbose s = v \<and> chunk_size s = Some c"
proof -
  obtain o1 r where scan: "scan_options f ops initial_locals = (o1, r)"
    by (cases "scan_options f ops initial_locals")
  show ?thesis
  proof (cases "\<exists>s. r = Return s")
    case False
    with process_options_scan_stops [OF assms(2) scan, of w] assms(1) show ?thesis
      by (cases r) auto
  next
    case True
    then obtain s where r: "r = Return s" ..
    from scan_options_shape [OF scan] r have o1: "o1 = []" by auto
    from scan r o1 have "scan_options f ops initial_locals = ([], Return s)"
      by simp
    from trans [OF process_options_scan_returns [OF assms(2) this, of w, symmetric] assms(1)]
      this show ?thesis
      by (auto split: if_splits option.splits dest: returning_Return)
  qed
qed

lemma check_options_Exit:
  "check_options w d1 d2 od cs u = (out, w', Exit n) \<Longrightarrow> n = 1"
  by (auto simp: check_options_def Let_def split: prod.splits sum.splits if_splits pyval.splits)

text \<open>
  Every exit of \<^verbatim>\<open>process_options\<close> has status 1, the help exit apart, which prints the
  usage text only and leaves the file system alone.
\<close>

lemma process_options_Exit:
  assumes "process_options w f argv = (out, w', Exit n)"
  shows "n = 1 \<or> (n = 0 \<and> out = [Line usage] \<and> w' = w)"
proof (cases "parsed_options argv")
  case None
  from process_options_rejected [OF this, of w f] assms show ?thesis by auto
next
  case (Some ops)
  obtain o1 r where scan: "scan_options f ops initial_locals = (o1, r)"
    by (cases "scan_options f ops initial_locals")
  show ?thesis
  proof (cases "\<exists>s. r = Return s")
    case False
    with process_options_scan_stops [OF Some scan, of w] scan_options_shape [OF scan] assms
    show ?thesis by (cases r) auto
  next
    case True
    then obtain s where r: "r = Return s" ..
    from scan_options_shape [OF scan] r have o1: "o1 = []" by auto
    from scan r o1 have "scan_options f ops initial_locals = ([], Return s)"
      by simp
    from trans [OF process_options_scan_returns [OF Some this, of w, symmetric] assms]
    show ?thesis
      by (auto split: if_splits option.splits dest!: returning_Exit check_options_Exit)
  qed
qed

lemma check_options_int_message:
  assumes "u \<noteq> ''Chunk size must be an integer between 10 and 1000''"
  shows "Line ''Chunk size must be an integer between 10 and 1000''
           \<notin> set (fst (check_options w d1 d2 od (PyInt c) u))"
  using assms
  by (simp add: check_options_def Let_def makedirs_def split: prod.split sum.split)

lemmas getopt_eval = parsed_options_def getopt_def getopt_loop.simps startswith_def do_longs_def
  long_has_args_def Let_def

lemma ex_check_options:
  "check_options example_world ''in1'' ''in2'' ''out'' (PyInt 100) usage =
     ([], example_world, Return ())"
  using check_options_valid_inputs [OF ex_listdir1 ex_scan1 ex_listdir2 ex_scan2, of "''out''" 100 usage]
  by (simp add: ex_isdir_out)

lemma ex_decimal_int: "decimal_int ''100'' = Some 100" "decimal_int ''abc'' = None"
  by (simp_all add: decimal_int_def digit_of_def)

section \<open>Properties of \<^verbatim>\<open>process_options\<close>\<close>

lemma occurrences_args_of: "occurrences name ops = length (args_of name ops)"
  by (simp add: occurrences_def args_of_def)

lemma args_of_single: "occurrences name ops = 1 \<Longrightarrow> \<exists>a. args_of name ops = [a]"
  by (cases "args_of name ops") (simp_all add: occurrences_args_of)

lemma args_of_empty: "args_of name ops = [] \<longleftrightarrow> name \<notin> fst ` set ops"
  by (auto simp: args_of_def filter_empty_conv image_iff)

lemma chunk_args_ok_single:
  assumes "chunk_args_ok f ops" and "args_of ''--chunk_size'' ops = [a]"
  shows "\<exists>c. f a = Some c"
proof -
  from assms(2) have "a \<in> set (args_of ''--chunk_size'' ops)"
    by simp
  then have "(''--chunk_size'', a) \<in> set ops"
    by (auto simp: args_of_def)
  with assms(1) show ?thesis
    by (auto simp: chunk_args_ok_def list_all_iff)
qed

text \<open>
  The loop counts the occurrences of the mandatory options, not the options that occurred.
  A command line that gives \<^verbatim>\<open>--input1\<close> twice and no \<^verbatim>\<open>--chunk_size\<close> passes the test
  \<^verbatim>\<open>mandatory_checks != 4\<close>, and the call of \<^verbatim>\<open>check_options\<close> then reads the unassigned
  local \<^verbatim>\<open>chunk_size\<close>.
\<close>

lemma process_options_repeated_option:
  "process_options example_world decimal_int
     [''--input1'', ''in1'', ''--input1'', ''in1'', ''--input2'', ''in2'', ''--output'', ''out''] =
   ([], example_world, Raise UnboundLocalError)"
  by (simp add: process_options_def getopt_eval option_step_def initial_locals_def)

text \<open>
  C4: on the command line \<^verbatim>\<open>-h\<close> all four mandatory options are absent, and yet
  \<^verbatim>\<open>process_options\<close> prints the usage text only and exits with status 0: the help option
  ends the run inside the loop, before the mandatory check.
\<close>

theorem process_options_mandatory_check_counterexample:
  "process_options example_world decimal_int [''-h''] = ([Line usage], example_world, Exit 0)"
  by (simp add: process_options_def getopt_eval option_step_def initial_locals_def)

text \<open>
  C4, amended: take a command line that \<^verbatim>\<open>getopt\<close> accepts, without \<^verbatim>\<open>-h\<close> among its
  options, whose \<^verbatim>\<open>--chunk_size\<close> arguments \<^verbatim>\<open>int\<close> accepts and which gives no mandatory
  option twice. If each of the four mandatory options is given, \<^verbatim>\<open>process_options\<close> passes
  its mandatory check: it ends as the call of \<^verbatim>\<open>check_options\<close> on the four arguments
  ends, and returns the options where that call returns. If one of the four is absent, it
  prints the error line and the usage text, and exits with status 1.
\<close>

theorem process_options_mandatory_check:
  assumes "parsed_options argv = Some ops" and "no_help ops" and "chunk_args_ok f ops"
    and "list_all (\<lambda>name. occurrences name ops \<le> 1) mandatory"
  shows "(list_all (\<lambda>name. occurrences name ops = 1) mandatory \<longrightarrow>
            (\<exists>d1 d2 od a c.
               args_of ''--input1'' ops = [d1] \<and> args_of ''--input2'' ops = [d2] \<and>
               args_of ''--output'' ops = [od] \<and> args_of ''--chunk_size'' ops = [a] \<and>
               f a = Some c \<and>
               process_options w f argv =
                 returning (check_options w d1 d2 od (PyInt c) usage)
                   (d1, d2, od, c, ''-v'' \<in> fst ` set ops, ''-m'' \<in> fst ` set ops,
                    if args_of ''-c'' ops = [] then PyInt 2
                    else PyStr (last (args_of ''-c'' ops))))) \<and>
         (\<not> list_all (\<lambda>name. occurrences name ops = 1) mandatory \<longrightarrow>
            process_options w f argv =
              ([Line (linesep @ ''Errors detected with mandatory options''), Line usage], w, Exit 1))"
proof -
  from scan_options_completes [OF assms(2,3)] obtain s
    where scan: "scan_options f ops initial_locals = ([], Return s)" by blast
  note R = scan_options_Return [OF scan]
  note P = process_options_scan_returns [OF assms(1) scan, of w]
  from assms(4) have le: "occurrences ''--input1'' ops \<le> 1" "occurrences ''--input2'' ops \<le> 1"
    "occurrences ''--output'' ops \<le> 1" "occurrences ''--chunk_size'' ops \<le> 1"
    by (simp_all add: mandatory_def)
  have all: "list_all (\<lambda>name. occurrences name ops = 1) mandatory \<longleftrightarrow>
      occurrences ''--input1'' ops = 1 \<and> occurrences ''--input2'' ops = 1 \<and>
      occurrences ''--output'' ops = 1 \<and> occurrences ''--chunk_size'' ops = 1"
    by (simp add: mandatory_def)
  from R(1) le have four: "mandatory_checks s = 4 \<longleftrightarrow>
      list_all (\<lambda>name. occurrences name ops = 1) mandatory"
    unfolding all by (simp add: initial_locals_def) linarith
  show ?thesis
  proof (intro conjI impI)
    assume given: "list_all (\<lambda>name. occurrences name ops = 1) mandatory"
    with all obtain d1 d2 od a where args: "args_of ''--input1'' ops = [d1]"
      "args_of ''--input2'' ops = [d2]" "args_of ''--output'' ops = [od]"
      "args_of ''--chunk_size'' ops = [a]"
      using args_of_single [of "''--input1''" ops] args_of_single [of "''--input2''" ops]
        args_of_single [of "''--output''" ops] args_of_single [of "''--chunk_size''" ops]
      by auto
    from chunk_args_ok_single [OF assms(3) args(4)] obtain c where c: "f a = Some c" ..
    from R(5-8) args c have locals: "input_dir1 s = Some d1" "input_dir2 s = Some d2"
      "output_dir s = Some od" "chunk_size s = Some c"
      by simp_all
    from R(2-4) have flags: "cores s = (if args_of ''-c'' ops = [] then PyInt 2
        else PyStr (last (args_of ''-c'' ops)))"
      "is_mp s = (''-m'' \<in> fst ` set ops)" "is_verbose s = (''-v'' \<in> fst ` set ops)"
      by (simp_all add: initial_locals_def)
    from given four have "mandatory_checks s = 4" by simp
    with P locals flags have "process_options w f argv =
        returning (check_options w d1 d2 od (PyInt c) usage)
          (d1, d2, od, c, ''-v'' \<in> fst ` set ops, ''-m'' \<in> fst ` set ops,
           if args_of ''-c'' ops = [] then PyInt 2 else PyStr (last (args_of ''-c'' ops)))"
      by simp
    with args c show "\<exists>d1 d2 od a c.
        args_of ''--input1'' ops = [d1] \<and> args_of ''--input2'' ops = [d2] \<and>
        args_of ''--output'' ops = [od] \<and> args_of ''--chunk_size'' ops = [a] \<and>
        f a = Some c \<and>
        process_options w f argv =
          returning (check_options w d1 d2 od (PyInt c) usage)
            (d1, d2, od, c, ''-v'' \<in> fst ` set ops, ''-m'' \<in> fst ` set ops,
             if args_of ''-c'' ops = [] then PyInt 2
             else PyStr (last (args_of ''-c'' ops)))"
      by blast
  next
    assume "\<not> list_all (\<lambda>name. occurrences name ops = 1) mandatory"
    with four have "mandatory_checks s \<noteq> 4" by simp
    with P show "process_options w f argv =
        ([Line (linesep @ ''Errors detected with mandatory options''), Line usage], w, Exit 1)"
      by simp
  qed
qed

lemma ex_parsed_full:
  "parsed_options [''--input1'', ''in1'', ''--input2'', ''in2'', ''--output'', ''out'',
      ''--chunk_size'', ''100''] =
   Some [(''--input1'', ''in1''), (''--input2'', ''in2''), (''--output'', ''out''),
      (''--chunk_size'', ''100'')]"
  by (simp add: getopt_eval)

lemma ex_parsed_no_chunk:
  "parsed_options [''--input1'', ''in1'', ''--input2'', ''in2'', ''--output'', ''out''] =
   Some [(''--input1'', ''in1''), (''--input2'', ''in2''), (''--output'', ''out'')]"
  by (simp add: getopt_eval)

theorem process_options_mandatory_check_witness:
  "process_options example_world decimal_int
     [''--input1'', ''in1'', ''--input2'', ''in2'', ''--output'', ''out'',
      ''--chunk_size'', ''100''] =
   ([], example_world, Return (''in1'', ''in2'', ''out'', 100, False, False, PyInt 2)) \<and>
   process_options example_world decimal_int
     [''--input1'', ''in1'', ''--input2'', ''in2'', ''--output'', ''out''] =
   ([Line (linesep @ ''Errors detected with mandatory options''), Line usage],
    example_world, Exit 1)"
  using process_options_mandatory_check [OF ex_parsed_full, of decimal_int example_world]
    process_options_mandatory_check [OF ex_parsed_no_chunk, of decimal_int example_world]
  by (simp add: no_help_def chunk_args_ok_def mandatory_def occurrences_def args_of_def
      ex_decimal_int ex_check_options returning_def)

text \<open>
  C6: the options are handled in the order of the command line, so on
  \<^verbatim>\<open>--chunk_size abc -h\<close> the conversion \<^verbatim>\<open>int(arg)\<close> raises before the loop reaches the help
  option: nothing is printed and the run does not end with status 0.
\<close>

theorem process_options_exit_codes_counterexample:
  "process_options example_world decimal_int [''--chunk_size'', ''abc'', ''-h''] =
     ([], example_world, Raise ValueError)"
  by (simp add: process_options_def getopt_eval option_step_def initial_locals_def ex_decimal_int)

text \<open>
  C6, amended: when \<^verbatim>\<open>getopt\<close> accepts the command line and delivers \<^verbatim>\<open>-h\<close> among the
  options, and \<^verbatim>\<open>int\<close> accepts the argument of every \<^verbatim>\<open>--chunk_size\<close> before it,
  \<^verbatim>\<open>process_options\<close> prints the usage text and exits with status 0. On every command
  line, when \<^verbatim>\<open>process_options\<close> does not return and does not end by that help exit, the
  process ends with status 1, be it by \<^verbatim>\<open>sys.exit(1)\<close> or by an uncaught exception.
\<close>

theorem process_options_exit_codes:
  "(parsed_options argv = Some (pre @ (''-h'', a) # post) \<longrightarrow> chunk_args_ok f pre \<longrightarrow>
      process_options w f argv = ([Line usage], w, Exit 0)) \<and>
   ((\<forall>v. snd (snd (process_options w f argv)) \<noteq> Return v) \<longrightarrow>
      process_options w f argv \<noteq> ([Line usage], w, Exit 0) \<longrightarrow>
      exit_status (snd (snd (process_options w f argv))) = 1)"
proof (intro conjI impI)
  assume p: "parsed_options argv = Some (pre @ (''-h'', a) # post)" and "chunk_args_ok f pre"
  from scan_options_help [OF this(2), of a post initial_locals]
  have "scan_options f (pre @ (''-h'', a) # post) initial_locals = ([Line usage], Exit 0)" .
  from process_options_scan_stops [OF p this, of w] show
    "process_options w f argv = ([Line usage], w, Exit 0)"
    by simp
next
  assume nr: "\<forall>v. snd (snd (process_options w f argv)) \<noteq> Return v"
    and nh: "process_options w f argv \<noteq> ([Line usage], w, Exit 0)"
  obtain out w' r where r: "process_options w f argv = (out, w', r)"
    by (cases "process_options w f argv")
  show "exit_status (snd (snd (process_options w f argv))) = 1"
  proof (cases r)
    case (Return v)
    with r nr show ?thesis by simp
  next
    case (Exit n)
    with r process_options_Exit [of w f argv out w' n] nh show ?thesis
      by auto
  next
    case (Raise err)
    with r show ?thesis by simp
  qed
qed

lemma ex_parsed_help:
  "parsed_options [''-v'', ''-h''] = Some ([(''-v'', '''')] @ (''-h'', '''') # [])"
  by (simp add: getopt_eval)

theorem process_options_exit_codes_witness:
  "process_options example_world decimal_int [''-v'', ''-h''] =
     ([Line usage], example_world, Exit 0) \<and>
   process_options example_world decimal_int [''--chunk_size'', ''abc'', ''-h''] =
     ([], example_world, Raise ValueError) \<and>
   exit_status (snd (snd (process_options example_world decimal_int
     [''--chunk_size'', ''abc'', ''-h'']))) = 1"
proof -
  have bad: "process_options example_world decimal_int [''--chunk_size'', ''abc'', ''-h''] =
      ([], example_world, Raise ValueError)"
    by (simp add: process_options_def getopt_eval option_step_def initial_locals_def
        ex_decimal_int)
  from process_options_exit_codes [of "[''-v'', ''-h'']" "[(''-v'', '''')]" "''''" "[]"
      decimal_int example_world] ex_parsed_help
  have "process_options example_world decimal_int [''-v'', ''-h''] =
      ([Line usage], example_world, Exit 0)"
    by (simp add: chunk_args_ok_def)
  moreover from process_options_exit_codes [of "[''--chunk_size'', ''abc'', ''-h'']" "[]" "''''"
      "[]" decimal_int example_world] bad
  have "exit_status (snd (snd (process_options example_world decimal_int
      [''--chunk_size'', ''abc'', ''-h'']))) = 1"
    by simp
  ultimately show ?thesis
    using bad by simp
qed

text \<open>
  C7: when multiprocessing is requested with \<^verbatim>\<open>-m\<close> and no \<^verbatim>\<open>-c\<close> is given, the tuple that
  \<^verbatim>\<open>process_options\<close> returns has \<^verbatim>\<open>is_mp\<close> set and the core count \<^verbatim>\<open>2\<close>. Here \<open>ops\<close> are
  the options that \<^verbatim>\<open>getopt\<close> finds on the command line.
\<close>

theorem process_options_default_cores:
  assumes "parsed_options argv = Some ops"
    and "''-m'' \<in> fst ` set ops" and "''-c'' \<notin> fst ` set ops"
    and "process_options w f argv = (out, w', Return (d1, d2, od, c, v, m, k))"
  shows "m \<and> k = PyInt 2"
proof -
  from process_options_ReturnD [OF assms(4) assms(1)] obtain s
    where scan: "scan_options f ops initial_locals = ([], Return s)"
      and s: "cores s = k" "is_mp s = m" by blast
  from assms(3) have "args_of ''-c'' ops = []"
    by (simp add: args_of_empty)
  with scan_options_Return(2,3) [OF scan] assms(2) s show ?thesis
    by (simp add: initial_locals_def)
qed

lemma ex_parsed_mp:
  "parsed_options [''--input1'', ''in1'', ''--input2'', ''in2'', ''--output'', ''out'',
      ''--chunk_size'', ''100'', ''-m''] =
   Some [(''--input1'', ''in1''), (''--input2'', ''in2''), (''--output'', ''out''),
      (''--chunk_size'', ''100''), (''-m'', '''')]"
  by (simp add: getopt_eval)

lemma ex_process_options_mp:
  "process_options example_world decimal_int
     [''--input1'', ''in1'', ''--input2'', ''in2'', ''--output'', ''out'',
      ''--chunk_size'', ''100'', ''-m''] =
   ([], example_world, Return (''in1'', ''in2'', ''out'', 100, False, True, PyInt 2))"
  by (simp add: process_options_def getopt_eval option_step_def initial_locals_def
      ex_decimal_int ex_check_options)

theorem process_options_default_cores_witness:
  "parsed_options [''--input1'', ''in1'', ''--input2'', ''in2'', ''--output'', ''out'',
      ''--chunk_size'', ''100'', ''-m''] =
   Some [(''--input1'', ''in1''), (''--input2'', ''in2''), (''--output'', ''out''),
      (''--chunk_size'', ''100''), (''-m'', '''')] \<and>
   process_options example_world decimal_int
     [''--input1'', ''in1'', ''--input2'', ''in2'', ''--output'', ''out'',
      ''--chunk_size'', ''100'', ''-m''] =
   ([], example_world, Return (''in1'', ''in2'', ''out'', 100, False, True, PyInt 2)) \<and>
   True \<and> PyInt 2 = PyInt 2"
  using process_options_default_cores [OF ex_parsed_mp _ _ ex_process_options_mp]
    ex_parsed_mp ex_process_options_mp
  by simp

text \<open>
  C8: on the command line \<^verbatim>\<open>-h --chunk_size abc\<close> the argument of \<^verbatim>\<open>--chunk_size\<close> is not
  a number, and yet no conversion exception is raised: the help option ends the run with
  status 0 before the loop reaches \<^verbatim>\<open>int(arg)\<close>.
\<close>

theorem process_options_chunk_size_conversion_counterexample:
  "decimal_int ''abc'' = None \<and>
   process_options example_world decimal_int [''-h'', ''--chunk_size'', ''abc''] =
     ([Line usage], example_world, Exit 0)"
  by (simp add: process_options_def getopt_eval option_step_def initial_locals_def ex_decimal_int)

text \<open>
  C8, amended: when \<^verbatim>\<open>getopt\<close> accepts the command line and delivers a \<^verbatim>\<open>--chunk_size\<close>
  whose argument \<^verbatim>\<open>int\<close> rejects, with no \<^verbatim>\<open>-h\<close> before it, \<^verbatim>\<open>process_options\<close> ends by the
  uncaught \<^verbatim>\<open>ValueError\<close> of \<^verbatim>\<open>int(arg)\<close>, with nothing printed and the file system
  untouched. And on every command line the message of the non-integer branch of
  \<^verbatim>\<open>check_options\<close> is never printed.
\<close>

theorem process_options_chunk_size_conversion:
  "(parsed_options argv = Some (pre @ (''--chunk_size'', a) # post) \<longrightarrow> no_help pre \<longrightarrow>
      f a = None \<longrightarrow> process_options w f argv = ([], w, Raise ValueError)) \<and>
   Line ''Chunk size must be an integer between 10 and 1000''
     \<notin> set (fst (process_options w f argv))"
proof (intro conjI impI)
  assume p: "parsed_options argv = Some (pre @ (''--chunk_size'', a) # post)"
    and nh: "no_help pre" and bad: "f a = None"
  from nh bad scan_options_bad_chunk [of pre f a post initial_locals]
  have "scan_options f (pre @ (''--chunk_size'', a) # post) initial_locals =
      ([], Raise ValueError)"
    by simp
  from process_options_scan_stops [OF p this, of w] show
    "process_options w f argv = ([], w, Raise ValueError)"
    by simp
next
  show "Line ''Chunk size must be an integer between 10 and 1000''
      \<notin> set (fst (process_options w f argv))"
  proof (cases "parsed_options argv")
    case None
    from process_options_rejected [OF this, of w f] show ?thesis by auto
  next
    case (Some ops)
    obtain o1 r where scan: "scan_options f ops initial_locals = (o1, r)"
      by (cases "scan_options f ops initial_locals")
    show ?thesis
    proof (cases "\<exists>s. r = Return s")
      case False
      with process_options_scan_stops [OF Some scan, of w] scan_options_shape [OF scan]
      show ?thesis
        using usage_not_message by auto
    next
      case True
      then obtain s where r: "r = Return s" ..
      from scan_options_shape [OF scan] r have "o1 = []" by auto
      with scan r have "scan_options f ops initial_locals = ([], Return s)"
        by simp
      from process_options_scan_returns [OF Some this, of w]
        check_options_int_message [OF usage_not_message]
      show ?thesis
        using usage_not_message
        by (auto simp: returning_fst linesep_def split: option.splits)
    qed
  qed
qed

lemma ex_parsed_bad_chunk:
  "parsed_options [''--input1'', ''in1'', ''--chunk_size'', ''abc'', ''-h''] =
   Some ([(''--input1'', ''in1'')] @ (''--chunk_size'', ''abc'') # [(''-h'', '''')])"
  by (simp add: getopt_eval)

theorem process_options_chunk_size_conversion_witness:
  "process_options example_world decimal_int
     [''--input1'', ''in1'', ''--chunk_size'', ''abc'', ''-h''] =
   ([], example_world, Raise ValueError)"
  using process_options_chunk_size_conversion [of
      "[''--input1'', ''in1'', ''--chunk_size'', ''abc'', ''-h'']" "[(''--input1'', ''in1'')]"
      "''abc''" "[(''-h'', '''')]" decimal_int example_world] ex_parsed_bad_chunk
  by (simp add: no_help_def ex_decimal_int)

text \<open>
  C9: when \<^verbatim>\<open>-c\<close> is given, the core count that \<^verbatim>\<open>process_options\<close> returns is the
  argument of \<^verbatim>\<open>-c\<close> as \<^verbatim>\<open>getopt\<close> delivered it, a string that was never converted (the last
  one when \<^verbatim>\<open>-c\<close> is given more than once); it is the integer 2 only when no \<^verbatim>\<open>-c\<close> is given.
  Here \<open>ops\<close> are the options that \<^verbatim>\<open>getopt\<close> finds on the command line.
\<close>

theorem process_options_cores_value:
  assumes "parsed_options argv = Some ops"
    and "process_options w f argv = (out, w', Return (d1, d2, od, c, v, m, k))"
  shows "if ''-c'' \<in> fst ` set ops then k = PyStr (last (args_of ''-c'' ops)) else k = PyInt 2"
proof -
  from process_options_ReturnD [OF assms(2) assms(1)] obtain s
    where scan: "scan_options f ops initial_locals = ([], Return s)"
      and s: "cores s = k" by blast
  from scan_options_Return(2) [OF scan] s show ?thesis
    by (simp add: initial_locals_def args_of_empty)
qed

lemma ex_parsed_cores:
  "parsed_options [''--input1'', ''in1'', ''--input2'', ''in2'', ''--output'', ''out'',
      ''--chunk_size'', ''100'', ''-c'', ''8''] =
   Some [(''--input1'', ''in1''), (''--input2'', ''in2''), (''--output'', ''out''),
      (''--chunk_size'', ''100''), (''-c'', ''8'')]"
  by (simp add: getopt_eval)

lemma ex_process_options_cores:
  "process_options example_world decimal_int
     [''--input1'', ''in1'', ''--input2'', ''in2'', ''--output'', ''out'',
      ''--chunk_size'', ''100'', ''-c'', ''8''] =
   ([], example_world, Return (''in1'', ''in2'', ''out'', 100, False, False, PyStr ''8''))"
  by (simp add: process_options_def getopt_eval option_step_def initial_locals_def
      ex_decimal_int ex_check_options)

theorem process_options_cores_value_witness:
  "parsed_options [''--input1'', ''in1'', ''--input2'', ''in2'', ''--output'', ''out'',
      ''--chunk_size'', ''100'', ''-c'', ''8''] =
   Some [(''--input1'', ''in1''), (''--input2'', ''in2''), (''--output'', ''out''),
      (''--chunk_size'', ''100''), (''-c'', ''8'')] \<and>
   process_options example_world decimal_int
     [''--input1'', ''in1'', ''--input2'', ''in2'', ''--output'', ''out'',
      ''--chunk_size'', ''100'', ''-c'', ''8''] =
   ([], example_world, Return (''in1'', ''in2'', ''out'', 100, False, False, PyStr ''8'')) \<and>
   PyStr ''8'' = PyStr (last (args_of ''-c'' [(''--input1'', ''in1''), (''--input2'', ''in2''),
      (''--output'', ''out''), (''--chunk_size'', ''100''), (''-c'', ''8'')]))"
  using process_options_cores_value [OF ex_parsed_cores ex_process_options_cores]
    ex_parsed_cores ex_process_options_cores
  by (simp add: args_of_def)

end
